theory Spec2Isabelle
  imports Main
begin

section \<open>The session store (src/context/AuthContext.tsx)\<close>

subsection \<open>Data model\<close>

text \<open>
  The \<^verbatim>\<open>User\<close> interface. A field of type \<^verbatim>\<open>string | null\<close> is a \<open>string option\<close>.
  The fields carry the prefix \<open>u_\<close>, since the dashboard declares a second interface
  with the same field names.
\<close>

record User =
  u_id :: int
  u_name :: string
  u_email :: string
  u_email_verified_at :: "string option"
  u_bio :: "string option"
  u_nationality :: "string option"
  u_profile_picture_url :: "string option"
  u_is_profile_public :: bool
  u_username :: "string option"
  u_group :: string
  u_banned_until :: "string option"
  u_ban_reason :: "string option"

text \<open>
  The state cells of \<^verbatim>\<open>AuthProvider\<close> (\<^verbatim>\<open>useState\<close>), together with the entry
  \<^verbatim>\<open>auth_token\<close> of \<^verbatim>\<open>localStorage\<close>.
\<close>

record auth_state =
  user :: "User option"
  isLoading :: bool
  isVerifying :: bool
  showVerificationPopup :: bool
  showBanPopup :: bool
  auth_token :: "string option"

subsection \<open>The role table and its lookup\<close>

text \<open>The object literal \<^verbatim>\<open>GROUP_HIERARCHY\<close>: its own properties.\<close>

definition GROUP_HIERARCHY :: "string \<rightharpoonup> int" where
  "GROUP_HIERARCHY = map_of
     [(''Basic Plan'', 0),
      (''Premium Plan'', 1),
      (''Junior Support'', 2),
      (''Support'', 3),
      (''Senior Support'', 4),
      (''Admin'', 5),
      (''Owner'', 6)]"

text \<open>
  \<^verbatim>\<open>GROUP_HIERARCHY[key]\<close> is a property read on an ordinary object, so a key that is
  not an own property is looked up on \<^verbatim>\<open>Object.prototype\<close> before the read gives
  \<^verbatim>\<open>undefined\<close>. The names below are the properties of \<^verbatim>\<open>Object.prototype\<close>
  (ECMAScript, Object.prototype and Annex B). A read of one of them gives a function
  (for \<^verbatim>\<open>__proto__\<close> the prototype object itself), which is not nullish, so
  \<^verbatim>\<open>?? -1\<close> keeps it.
\<close>

definition Object_prototype_keys :: "string list" where
  "Object_prototype_keys =
     [''constructor'', ''hasOwnProperty'', ''isPrototypeOf'', ''propertyIsEnumerable'',
      ''toLocaleString'', ''toString'', ''valueOf'', ''__proto__'',
      ''__defineGetter__'', ''__defineSetter__'', ''__lookupGetter__'', ''__lookupSetter__'']"

text \<open>
  The values that \<^verbatim>\<open>GROUP_HIERARCHY[key] ?? -1\<close> can take: a number, or an inherited
  object, kept as the string that \<^verbatim>\<open>ToPrimitive\<close> gives for it in a comparison.
\<close>

datatype jsval = Num int | Obj string

definition toPrimitive :: "string \<Rightarrow> string" where
  "toPrimitive key =
     (if key = ''__proto__'' then ''[object Object]''
      else ''function '' @ (if key = ''constructor'' then ''Object'' else key)
             @ ''() { [native code] }'')"

definition privilegeOf :: "string \<Rightarrow> jsval" where
  \<comment> \<open>\<^verbatim>\<open>GROUP_HIERARCHY[key] ?? -1\<close>\<close>
  "privilegeOf key =
     (case GROUP_HIERARCHY key of
        Some n \<Rightarrow> Num n
      | None \<Rightarrow> if key \<in> set Object_prototype_keys then Obj (toPrimitive key) else Num (- 1))"

text \<open>Strings compare by code units, the shorter of two with a common prefix first.\<close>

fun str_less :: "string \<Rightarrow> string \<Rightarrow> bool" where
  "str_less [] [] = False"
| "str_less [] (y # ys) = True"
| "str_less (x # xs) [] = False"
| "str_less (x # xs) (y # ys) =
     (if (of_char x :: nat) < of_char y then True
      else if (of_char y :: nat) < of_char x then False
      else str_less xs ys)"

text \<open>
  \<^verbatim>\<open>a >= b\<close>: numbers compare as numbers and two strings as strings; a number against
  a string converts the string to a number, which is \<^verbatim>\<open>NaN\<close> for each string of
  \<open>toPrimitive\<close>, and a comparison with \<^verbatim>\<open>NaN\<close> is false.
\<close>

fun js_ge :: "jsval \<Rightarrow> jsval \<Rightarrow> bool" where
  "js_ge (Num a) (Num b) = (b \<le> a)"
| "js_ge (Obj s) (Obj t) = (\<not> str_less s t)"
| "js_ge (Num a) (Obj t) = False"
| "js_ge (Obj s) (Num b) = False"

subsection \<open>hasPrivilege\<close>

text \<open>
  \<^verbatim>\<open>hasPrivilege\<close> reads the held identity, the state cell \<^verbatim>\<open>user\<close>; the mock
  provider of the repository has the same function, word for word. The argument is
  \<^verbatim>\<open>requiredGroups: string | string[]\<close>.
\<close>

datatype requiredGroups = Single string | Many "string list"

text \<open>The \<^verbatim>\<open>for ... of\<close> loop over the array: it returns at the first group reached.\<close>

fun hasPrivilege_loop :: "jsval \<Rightarrow> string list \<Rightarrow> bool" where
  "hasPrivilege_loop userPrivilege [] = False"
| "hasPrivilege_loop userPrivilege (g # gs) =
     (if js_ge userPrivilege (privilegeOf g) then True
      else hasPrivilege_loop userPrivilege gs)"

definition hasPrivilege :: "User option \<Rightarrow> requiredGroups \<Rightarrow> bool" where
  "hasPrivilege usr required =
     (case usr of
        None \<Rightarrow> False
      | Some u \<Rightarrow>
          (let userPrivilege = privilegeOf (u_group u) in
           case required of
             Many gs \<Rightarrow> hasPrivilege_loop userPrivilege gs
           | Single g \<Rightarrow> js_ge userPrivilege (privilegeOf g)))"

subsection \<open>The ban check\<close>

text \<open>
  \<^verbatim>\<open>new Date(s)\<close> parses a string with the runtime's \<^verbatim>\<open>Date.parse\<close>, which is not
  part of the repository: it is a parameter, giving the time value in milliseconds, or
  \<open>None\<close> for an invalid date (whose time value is \<^verbatim>\<open>NaN\<close>). \<^verbatim>\<open>new Date()\<close> is
  the clock, the parameter \<open>now\<close>.
\<close>

type_synonym date_parse = "string \<Rightarrow> int option"

text \<open>\<^verbatim>\<open>new Date(s) > new Date()\<close>: false when the left date is invalid.\<close>

definition date_after_now :: "date_parse \<Rightarrow> int \<Rightarrow> string \<Rightarrow> bool" where
  "date_after_now parse now s = (case parse s of None \<Rightarrow> False | Some t \<Rightarrow> now < t)"

definition isUserObjectBanned :: "date_parse \<Rightarrow> int \<Rightarrow> User option \<Rightarrow> bool" where
  "isUserObjectBanned parse now userObj =
     (case userObj of
        None \<Rightarrow> False
      | Some u \<Rightarrow>
          (case u_banned_until u of
             None \<Rightarrow> False
           | Some s \<Rightarrow> if s = [] then False else date_after_now parse now s))"

definition isBanned :: "date_parse \<Rightarrow> int \<Rightarrow> auth_state \<Rightarrow> bool" where
  "isBanned parse now st = isUserObjectBanned parse now (user st)"

subsection \<open>login\<close>

text \<open>
  A request settles with the server's answer or is rejected; a rejection carries
  \<^verbatim>\<open>error.response?.data?.message\<close>, which may be absent.
\<close>

datatype api_error = ApiError "string option"

datatype 'a response = Rejected api_error | Resolved 'a

text \<open>
  The body of a resolved \<^verbatim>\<open>POST /login\<close>, typed \<^verbatim>\<open>any\<close> in the source:
  \<^verbatim>\<open>user\<close> may be \<^verbatim>\<open>null\<close> or absent.
\<close>

record login_data =
  access_token :: string
  user_data :: "User option"

text \<open>The two ways in which the promise of \<^verbatim>\<open>login\<close> is rejected.\<close>

datatype login_failure = RequestRejected api_error | TypeError

text \<open>
  \<^verbatim>\<open>login\<close> has \<^verbatim>\<open>try ... finally\<close> and no \<^verbatim>\<open>catch\<close>. A rejected request leaves
  the \<^verbatim>\<open>try\<close> block at the \<^verbatim>\<open>await\<close>, runs \<^verbatim>\<open>finally\<close> and rejects the promise
  that \<^verbatim>\<open>login\<close> returns (\<open>Inl\<close>). On a resolved request the token is stored and
  \<^verbatim>\<open>setUser(userData)\<close> runs first; then \<^verbatim>\<open>userData.email_verified_at\<close> throws a
  \<^verbatim>\<open>TypeError\<close> when \<^verbatim>\<open>userData\<close> is \<^verbatim>\<open>null\<close> or \<^verbatim>\<open>undefined\<close>, which also
  runs \<^verbatim>\<open>finally\<close> and rejects the promise. The credentials only travel to the server,
  whose answer is the argument \<open>resp\<close>.
\<close>

definition login ::
  "date_parse \<Rightarrow> int \<Rightarrow> login_data response \<Rightarrow> auth_state \<Rightarrow> (login_failure + unit) \<times> auth_state"
where
  "login parse now resp st =
     (let st1 = st\<lparr>isLoading := True\<rparr> in
      case resp of
        Rejected e \<Rightarrow> (Inl (RequestRejected e), st1\<lparr>isLoading := False\<rparr>)
      | Resolved d \<Rightarrow>
          (let st2 = st1\<lparr>auth_token := Some (access_token d)\<rparr>;
               st3 = st2\<lparr>user := user_data d\<rparr>
           in case user_data d of
                None \<Rightarrow> (Inl TypeError, st3\<lparr>isLoading := False\<rparr>)
              | Some userData \<Rightarrow>
                  (let st4 = (if u_email_verified_at userData = None \<or>
                                 u_email_verified_at userData = Some []
                              then st3\<lparr>showVerificationPopup := True\<rparr> else st3);
                       st5 = (if isUserObjectBanned parse now (Some userData)
                              then st4\<lparr>showBanPopup := True\<rparr>
                              else st4\<lparr>showBanPopup := False\<rparr>)
                   in (Inr (), st5\<lparr>isLoading := False\<rparr>))))"

section \<open>The admin dashboard (AdminPanelPage)\<close>

subsection \<open>Data model\<close>

text \<open>
  \<^verbatim>\<open>UserProfileData\<close>, fields with the prefix \<open>p_\<close>; an optional field (\<^verbatim>\<open>name?\<close>) is
  an option as well.
\<close>

record UserProfileData =
  p_id :: int
  p_username :: string
  p_name :: "string option"
  p_email :: "string option"
  p_bio :: "string option"
  p_nationality :: "string option"
  p_profile_picture_url :: "string option"
  p_is_profile_public :: bool
  p_group :: string
  p_banned_until :: "string option"
  p_ban_reason :: "string option"
  p_is_private :: "bool option"
  p_message :: "string option"
  p_created_at :: "string option"

record PaginationMeta =
  current_page :: int
  last_page :: int
  per_page :: int
  total :: int

datatype message_type = success | error

record action_message =
  msg_type :: message_type
  msg_text :: string

datatype modal_tab = info | moderation | permissions

text \<open>The body of \<^verbatim>\<open>POST /admin/users/{id}/ban\<close>; \<^verbatim>\<open>banned_until\<close> is optional.\<close>

record ban_data =
  ban_reason :: string
  banned_until :: "string option"

text \<open>The network calls of the handlers below, as the page issues them.\<close>

datatype request =
    GET_users int string
  | POST_ban int ban_data

record users_page =
  data :: "UserProfileData list"
  meta :: PaginationMeta

text \<open>
  The state cells of the page that the user list and the moderation tab use, and
  \<open>requests\<close>, the log of the network calls issued so far.
\<close>

record dashboard =
  users :: "UserProfileData list"
  pagination :: PaginationMeta
  listLoading :: bool
  listError :: "string option"
  searchQuery :: string
  selectedUser :: "UserProfileData option"
  modalOpen :: bool
  modalActiveTab :: modal_tab
  banReason :: string
  bannedUntil :: string
  newGroup :: string
  adminActionLoading :: bool
  adminActionMessage :: "action_message option"
  requests :: "request list"

subsection \<open>Fetching and paging\<close>

text \<open>\<^verbatim>\<open>err.response?.data?.message || fallback\<close>: an empty message is falsy too.\<close>

definition message_or :: "api_error \<Rightarrow> string \<Rightarrow> string" where
  "message_or e fallback =
     (case e of ApiError None \<Rightarrow> fallback
              | ApiError (Some m) \<Rightarrow> if m = [] then fallback else m)"

definition fetchUsers :: "int \<Rightarrow> string \<Rightarrow> users_page response \<Rightarrow> dashboard \<Rightarrow> dashboard" where
  "fetchUsers page search resp st =
     (let st1 = st\<lparr>listLoading := True\<rparr>;
          st2 = st1\<lparr>listError := None\<rparr>;
          st3 = st2\<lparr>requests := requests st2 @ [GET_users page search]\<rparr>;
          st4 = (case resp of
                   Resolved r \<Rightarrow> st3\<lparr>users := data r, pagination := meta r\<rparr>
                 | Rejected e \<Rightarrow>
                     st3\<lparr>listError :=
                       Some (message_or e ''Failed to load users. Check your permissions.'')\<rparr>)
      in st4\<lparr>listLoading := False\<rparr>)"

text \<open>
  \<^verbatim>\<open>handlePageChange\<close>; the page numbers are integers, as the buttons and the server
  give them.
\<close>

definition handlePageChange :: "int \<Rightarrow> users_page response \<Rightarrow> dashboard \<Rightarrow> dashboard" where
  "handlePageChange page resp st =
     (if page \<ge> 1 \<and> page \<le> last_page (pagination st)
      then fetchUsers page (searchQuery st) resp st
      else st)"

subsection \<open>Banning\<close>

text \<open>\<^verbatim>\<open>data.banned_until || null\<close>\<close>

definition or_null :: "string option \<Rightarrow> string option" where
  "or_null v = (case v of None \<Rightarrow> None | Some s \<Rightarrow> if s = [] then None else Some s)"

text \<open>
  \<^verbatim>\<open>handleBanUser\<close>. The first guard, \<^verbatim>\<open>!selectedUser?.id\<close>, holds when no user is
  selected and when the selected user's id is \<^verbatim>\<open>0\<close>. The template literal and the
  request use the \<^verbatim>\<open>selectedUser\<close> of the call; the functional update
  \<^verbatim>\<open>setSelectedUser(prev => ...)\<close> patches the record held when the request settles.
\<close>

definition handleBanUser :: "bool \<Rightarrow> unit response \<Rightarrow> dashboard \<Rightarrow> dashboard" where
  "handleBanUser permanent resp st =
     (case selectedUser st of
        None \<Rightarrow> st
      | Some su \<Rightarrow>
          if p_id su = 0 then st
          else if (\<not> permanent \<and> bannedUntil st = []) \<or> banReason st = []
          then st\<lparr>adminActionMessage :=
                   Some \<lparr>msg_type = error, msg_text = ''Please fill all ban fields.''\<rparr>\<rparr>
          else
            (let st1 = st\<lparr>adminActionLoading := True\<rparr>;
                 st2 = st1\<lparr>adminActionMessage := None\<rparr>;
                 d0 = \<lparr>ban_reason = banReason st, banned_until = None\<rparr>;
                 d = (if \<not> permanent then d0\<lparr>banned_until := Some (bannedUntil st)\<rparr> else d0);
                 st3 = st2\<lparr>requests := requests st2 @ [POST_ban (p_id su) d]\<rparr>;
                 st4 = (case resp of
                          Resolved _ \<Rightarrow>
                            (let st5 = st3\<lparr>adminActionMessage :=
                                   Some \<lparr>msg_type = success,
                                         msg_text = ''User '' @ p_username su @ '' banned successfully!''\<rparr>\<rparr>
                             in st5\<lparr>selectedUser :=
                                  (case selectedUser st5 of
                                     None \<Rightarrow> None
                                   | Some prev \<Rightarrow>
                                       Some (prev\<lparr>p_banned_until := or_null (banned_until d),
                                                  p_ban_reason := Some (banReason st)\<rparr>))\<rparr>)
                        | Rejected e \<Rightarrow>
                            st3\<lparr>adminActionMessage :=
                              Some \<lparr>msg_type = error,
                                    msg_text = message_or e
                                      ''Failed to ban user. Check privileges or user ID.''\<rparr>\<rparr>)
             in st4\<lparr>adminActionLoading := False\<rparr>))"

subsection \<open>The dashboard's own ban check\<close>

text \<open>
  \<^verbatim>\<open>isUserBanned\<close> returns the value of \<^verbatim>\<open>user.banned_until && (...)\<close>: the left
  operand itself when it is falsy (\<^verbatim>\<open>null\<close> or the empty string), the comparison
  otherwise. Its callers only test the result for truthiness.
\<close>

datatype jsresult = JNull | JStr string | JBool bool

fun truthy :: "jsresult \<Rightarrow> bool" where
  "truthy JNull = False"
| "truthy (JStr s) = (s \<noteq> [])"
| "truthy (JBool b) = b"

definition isUserBanned :: "date_parse \<Rightarrow> int \<Rightarrow> UserProfileData \<Rightarrow> jsresult" where
  "isUserBanned parse now usr =
     (case p_banned_until usr of
        None \<Rightarrow> JNull
      | Some s \<Rightarrow> if s = [] then JStr s else JBool (date_after_now parse now s))"

section \<open>The rank of the specification\<close>

text \<open>
  The rank as the specification words it, to be compared with \<open>privilegeOf\<close>: the
  position of a defined tier in the hierarchy, and for any other label a rank below all
  defined tiers.
\<close>

definition spec_rank :: "string \<Rightarrow> int" where
  "spec_rank label = (case GROUP_HIERARCHY label of Some n \<Rightarrow> n | None \<Rightarrow> - 1)"

section \<open>Sample data\<close>

text \<open>Concrete values at which the theorems below are instantiated.\<close>

definition sample_user :: "string \<Rightarrow> string option \<Rightarrow> User" where
  "sample_user g b =
     \<lparr>u_id = 1, u_name = ''Ada'', u_email = ''ada@example.com'',
      u_email_verified_at = Some ''2024-05-01T10:00:00Z'', u_bio = None, u_nationality = None,
      u_profile_picture_url = None, u_is_profile_public = True, u_username = Some ''ada'',
      u_group = g, u_banned_until = b, u_ban_reason = None\<rparr>"

definition sample_auth :: "User option \<Rightarrow> auth_state" where
  "sample_auth usr =
     \<lparr>user = usr, isLoading = False, isVerifying = False, showVerificationPopup = False,
      showBanPopup = False, auth_token = Some ''tok-1''\<rparr>"

text \<open>
  A parser that knows two instants: 2020-01-01T00:00:00Z is 1577836800000 ms after the
  epoch and 2030-01-01T00:00:00Z is 1893456000000 ms after it.
\<close>

definition sample_parse :: date_parse where
  "sample_parse s =
     (if s = ''2020-01-01T00:00:00Z'' then Some 1577836800000
      else if s = ''2030-01-01T00:00:00Z'' then Some 1893456000000
      else None)"

definition sample_profile :: "int \<Rightarrow> UserProfileData" where
  "sample_profile i =
     \<lparr>p_id = i, p_username = ''grace'', p_name = Some ''Grace'',
      p_email = Some ''grace@example.com'', p_bio = Some ''Compilers.'',
      p_nationality = Some ''NL'', p_profile_picture_url = None, p_is_profile_public = True,
      p_group = ''Basic Plan'', p_banned_until = None, p_ban_reason = None,
      p_is_private = None, p_message = None, p_created_at = Some ''2024-01-01T00:00:00Z''\<rparr>"

definition sample_dashboard :: "UserProfileData option \<Rightarrow> string \<Rightarrow> string \<Rightarrow> dashboard" where
  "sample_dashboard sel reason until =
     \<lparr>users = [], pagination = \<lparr>current_page = 1, last_page = 3, per_page = 15, total = 40\<rparr>,
      listLoading = False, listError = None, searchQuery = ''gr'', selectedUser = sel,
      modalOpen = True, modalActiveTab = moderation, banReason = reason, bannedUntil = until,
      newGroup = ''Basic Plan'', adminActionLoading = False, adminActionMessage = None,
      requests = []\<rparr>"

section \<open>Properties of hasPrivilege\<close>

lemma GROUP_HIERARCHY_Some_iff:
  "GROUP_HIERARCHY k = Some n \<longleftrightarrow>
     (k = ''Basic Plan'' \<and> n = 0) \<or> (k = ''Premium Plan'' \<and> n = 1) \<or>
     (k = ''Junior Support'' \<and> n = 2) \<or> (k = ''Support'' \<and> n = 3) \<or>
     (k = ''Senior Support'' \<and> n = 4) \<or> (k = ''Admin'' \<and> n = 5) \<or>
     (k = ''Owner'' \<and> n = 6)"
  by (auto simp: GROUP_HIERARCHY_def)

lemma hasPrivilege_loop_iff:
  "hasPrivilege_loop p gs \<longleftrightarrow> (\<exists>g \<in> set gs. js_ge p (privilegeOf g))"
  by (induction gs) auto

lemma privilegeOf_defined: "GROUP_HIERARCHY k = Some n \<Longrightarrow> privilegeOf k = Num n"
  by (simp add: privilegeOf_def)

lemma privilegeOf_unknown:
  "GROUP_HIERARCHY k = None \<Longrightarrow> privilegeOf k = Num (- 1) \<or> (\<exists>s. privilegeOf k = Obj s)"
  by (simp add: privilegeOf_def)

lemma GROUP_HIERARCHY_nonneg: "GROUP_HIERARCHY k = Some n \<Longrightarrow> 0 \<le> n"
  by (auto simp: GROUP_HIERARCHY_Some_iff)

lemma unknown_below_defined:
  assumes "GROUP_HIERARCHY g = None" and "GROUP_HIERARCHY r = Some n"
  shows "\<not> js_ge (privilegeOf g) (privilegeOf r)"
proof -
  have n: "0 \<le> n" using assms(2) by (rule GROUP_HIERARCHY_nonneg)
  from privilegeOf_unknown [OF assms(1)] show ?thesis
  proof
    assume "privilegeOf g = Num (- 1)"
    with n assms(2) show ?thesis by (simp add: privilegeOf_defined)
  next
    assume "\<exists>s. privilegeOf g = Obj s"
    with assms(2) show ?thesis by (auto simp: privilegeOf_defined)
  qed
qed

text \<open>
  How \<^verbatim>\<open>hasPrivilege\<close> computes: false when no identity is held; with an identity,
  the \<^verbatim>\<open>>=\<close> test between the two looked-up values for a single role, and the
  disjunction of that test over the members of an array.
\<close>

lemma hasPrivilege_unfold:
  "hasPrivilege None required = False \<and>
   (hasPrivilege (Some u) (Single r) \<longleftrightarrow> js_ge (privilegeOf (u_group u)) (privilegeOf r)) \<and>
   (hasPrivilege (Some u) (Many rs) \<longleftrightarrow>
      (\<exists>r \<in> set rs. js_ge (privilegeOf (u_group u)) (privilegeOf r)))"
  by (simp add: hasPrivilege_def hasPrivilege_loop_iff)

lemma privilegeOf_spec_rank:
  "key \<notin> set Object_prototype_keys \<Longrightarrow> privilegeOf key = Num (spec_rank key)"
  by (simp add: privilegeOf_def spec_rank_def split: option.splits)

text \<open>
  Away from the property names of \<^verbatim>\<open>Object.prototype\<close> the code and the rank of the
  specification agree: a single role is granted iff the rank of the user's group is at
  least the rank of the role, an array iff this holds for one of its members.
\<close>

lemma hasPrivilege_spec_rank:
  assumes "u_group u \<notin> set Object_prototype_keys"
  shows "(r \<notin> set Object_prototype_keys \<longrightarrow>
            (hasPrivilege (Some u) (Single r) \<longleftrightarrow> spec_rank r \<le> spec_rank (u_group u))) \<and>
         ((\<forall>r \<in> set rs. r \<notin> set Object_prototype_keys) \<longrightarrow>
            (hasPrivilege (Some u) (Many rs) \<longleftrightarrow>
               (\<exists>r \<in> set rs. spec_rank r \<le> spec_rank (u_group u))))"
  using assms by (simp add: hasPrivilege_unfold privilegeOf_spec_rank)

lemma hasPrivilege_Support_example:
  "u_group u = ''Support'' \<Longrightarrow>
     \<not> hasPrivilege (Some u) (Many [''Admin'', ''Owner'', ''Senior Support''])"
  by (simp add: hasPrivilege_def privilegeOf_def GROUP_HIERARCHY_def)

text \<open>
  C1. The claim is that, for every call with an identity held, a single role is granted
  iff the rank of the identity's group is at least the rank of the role, and an array iff
  this holds for one member. The code breaks it at a required role named like a property
  of \<^verbatim>\<open>Object.prototype\<close>: the lookup \<^verbatim>\<open>GROUP_HIERARCHY['toString'] ?? -1\<close> gives
  the inherited function instead of the default. An Owner (rank 6) is refused
  \<^verbatim>\<open>'toString'\<close> (rank \<open>-1\<close>), and a Support user (rank 3) is refused the array
  \<^verbatim>\<open>['valueOf', 'Owner']\<close>, whose first member has rank \<open>-1\<close>.
\<close>

theorem hasPrivilege_rank_mismatch:
  "spec_rank ''toString'' \<le> spec_rank (u_group (sample_user ''Owner'' None)) \<and>
   hasPrivilege (Some (sample_user ''Owner'' None)) (Single ''toString'') = False \<and>
   (\<exists>r \<in> set [''valueOf'', ''Owner'']. spec_rank r \<le> spec_rank (u_group (sample_user ''Support'' None))) \<and>
   hasPrivilege (Some (sample_user ''Support'' None)) (Many [''valueOf'', ''Owner'']) = False"
  by (simp add: hasPrivilege_def sample_user_def privilegeOf_def spec_rank_def
        GROUP_HIERARCHY_def Object_prototype_keys_def)

text \<open>
  C3. A user whose group is not a key of the role table is refused every defined role,
  alone or in an array of defined roles: the value looked up for such a group is never
  \<^verbatim>\<open>>=\<close> the rank of a defined tier. For a group that is not a property name of
  \<^verbatim>\<open>Object.prototype\<close> that value is the default \<open>-1\<close>, which is below every rank of
  the table.
\<close>

theorem unknown_group_no_privilege:
  assumes "GROUP_HIERARCHY (u_group u) = None"
  shows "(GROUP_HIERARCHY r \<noteq> None \<longrightarrow> \<not> hasPrivilege (Some u) (Single r)) \<and>
         ((\<forall>r \<in> set rs. GROUP_HIERARCHY r \<noteq> None) \<longrightarrow> \<not> hasPrivilege (Some u) (Many rs)) \<and>
         (GROUP_HIERARCHY r \<noteq> None \<longrightarrow> \<not> js_ge (privilegeOf (u_group u)) (privilegeOf r)) \<and>
         (u_group u \<notin> set Object_prototype_keys \<longrightarrow>
            privilegeOf (u_group u) = Num (- 1) \<and>
            (\<forall>k n. GROUP_HIERARCHY k = Some n \<longrightarrow> - 1 < n))"
proof -
  have below: "\<not> js_ge (privilegeOf (u_group u)) (privilegeOf k)" if "GROUP_HIERARCHY k \<noteq> None" for k
    using that unknown_below_defined [OF assms] by auto
  have single: "GROUP_HIERARCHY r \<noteq> None \<longrightarrow> \<not> hasPrivilege (Some u) (Single r)"
    using below by (simp add: hasPrivilege_def)
  have many: "(\<forall>r \<in> set rs. GROUP_HIERARCHY r \<noteq> None) \<longrightarrow> \<not> hasPrivilege (Some u) (Many rs)"
    using below by (simp add: hasPrivilege_def hasPrivilege_loop_iff)
  have dflt: "u_group u \<notin> set Object_prototype_keys \<longrightarrow> privilegeOf (u_group u) = Num (- 1)"
    using assms by (simp add: privilegeOf_def)
  have rk: "\<forall>k n. GROUP_HIERARCHY k = Some n \<longrightarrow> - 1 < n"
    using GROUP_HIERARCHY_nonneg by fastforce
  from single many below dflt rk show ?thesis by blast
qed

theorem unknown_group_no_privilege_witness:
  "GROUP_HIERARCHY (u_group (sample_user ''Moderator'' None)) = None \<and>
   \<not> hasPrivilege (Some (sample_user ''Moderator'' None)) (Single ''Basic Plan'') \<and>
   \<not> hasPrivilege (Some (sample_user ''Moderator'' None)) (Many [''Basic Plan'', ''Owner''])"
proof -
  have h: "GROUP_HIERARCHY (u_group (sample_user ''Moderator'' None)) = None"
    by (simp add: sample_user_def GROUP_HIERARCHY_def)
  have d: "GROUP_HIERARCHY ''Basic Plan'' \<noteq> None"
          "\<forall>r \<in> set [''Basic Plan'', ''Owner'']. GROUP_HIERARCHY r \<noteq> None"
    by (simp_all add: GROUP_HIERARCHY_def)
  from unknown_group_no_privilege [OF h, of "''Basic Plan''" "[''Basic Plan'', ''Owner'']"] h d
  show ?thesis by blast
qed

text \<open>
  C4. When the role \<open>R1\<close> ranks strictly above the role \<open>R2\<close> in the table, a user of
  group \<open>R1\<close> is granted \<open>R2\<close>, alone and in any array that contains it.
\<close>

theorem privilege_monotone:
  assumes "GROUP_HIERARCHY R1 = Some a" and "GROUP_HIERARCHY R2 = Some b" and "b < a"
    and "u_group u = R1"
  shows "hasPrivilege (Some u) (Single R2) \<and> (R2 \<in> set rs \<longrightarrow> hasPrivilege (Some u) (Many rs))"
proof -
  have "js_ge (privilegeOf (u_group u)) (privilegeOf R2)"
    using assms by (simp add: privilegeOf_defined)
  then show ?thesis
    by (auto simp: hasPrivilege_def hasPrivilege_loop_iff)
qed

theorem privilege_monotone_witness:
  "GROUP_HIERARCHY ''Admin'' = Some 5 \<and> GROUP_HIERARCHY ''Support'' = Some 3 \<and> (3::int) < 5 \<and>
   hasPrivilege (Some (sample_user ''Admin'' None)) (Single ''Support'') \<and>
   hasPrivilege (Some (sample_user ''Admin'' None)) (Many [''Owner'', ''Support''])"
proof -
  have h: "GROUP_HIERARCHY ''Admin'' = Some 5" "GROUP_HIERARCHY ''Support'' = Some 3"
          "(3::int) < 5" "u_group (sample_user ''Admin'' None) = ''Admin''"
    by (simp_all add: GROUP_HIERARCHY_def sample_user_def)
  from privilege_monotone [OF h, of "[''Owner'', ''Support'']"] h show ?thesis by simp
qed

text \<open>
  A required role that is neither a key of the role table nor a property name of
  \<^verbatim>\<open>Object.prototype\<close> gets the default rank \<open>-1\<close>, and every identity whose group
  is not such a property name has a rank of at least \<open>-1\<close>: the role is granted, alone
  and in any array that contains it.
\<close>

lemma unknown_required_granted:
  assumes "GROUP_HIERARCHY r = None" and "r \<notin> set Object_prototype_keys"
    and "u_group u \<notin> set Object_prototype_keys"
  shows "hasPrivilege (Some u) (Single r) \<and> (r \<in> set rs \<longrightarrow> hasPrivilege (Some u) (Many rs))"
proof -
  have r: "privilegeOf r = Num (- 1)" using assms(1,2) by (simp add: privilegeOf_def)
  have "\<exists>n. privilegeOf (u_group u) = Num n \<and> - 1 \<le> n"
  proof (cases "GROUP_HIERARCHY (u_group u)")
    case None
    with assms(3) show ?thesis by (simp add: privilegeOf_def)
  next
    case (Some n)
    then have "0 \<le> n" by (rule GROUP_HIERARCHY_nonneg)
    with Some show ?thesis by (simp add: privilegeOf_def)
  qed
  with r have "js_ge (privilegeOf (u_group u)) (privilegeOf r)" by auto
  then show ?thesis by (auto simp: hasPrivilege_def hasPrivilege_loop_iff)
qed

text \<open>
  C9. The claim is that every identity is granted a required role that is not in the
  table, because a label outside the table gets the default rank. The code breaks it at
  the property names of \<^verbatim>\<open>Object.prototype\<close>, which are outside the table and get no
  default: \<^verbatim>\<open>GROUP_HIERARCHY['constructor']\<close> is the inherited function \<^verbatim>\<open>Object\<close>,
  not \<^verbatim>\<open>undefined\<close>, and its comparison with a number is false. A user of group Basic
  Plan is refused \<^verbatim>\<open>'constructor'\<close>, alone and in an array; and a user whose group is
  \<^verbatim>\<open>'constructor'\<close> is refused the unknown role \<^verbatim>\<open>'Moderator'\<close>.
\<close>

theorem hasPrivilege_inherited_key:
  "GROUP_HIERARCHY ''constructor'' = None \<and> GROUP_HIERARCHY ''Moderator'' = None \<and>
   hasPrivilege (Some (sample_user ''Basic Plan'' None)) (Single ''constructor'') = False \<and>
   hasPrivilege (Some (sample_user ''Basic Plan'' None)) (Many [''constructor'']) = False \<and>
   hasPrivilege (Some (sample_user ''constructor'' None)) (Single ''Moderator'') = False \<and>
   hasPrivilege (Some (sample_user ''constructor'' None)) (Many [''Moderator'']) = False"
  by (simp add: hasPrivilege_def sample_user_def privilegeOf_def GROUP_HIERARCHY_def
        Object_prototype_keys_def)

section \<open>Properties of the ban check\<close>

lemma isUserObjectBanned_Some:
  "isUserObjectBanned parse now (Some u) \<longleftrightarrow>
     (\<exists>s t. u_banned_until u = Some s \<and> s \<noteq> [] \<and> parse s = Some t \<and> now < t)"
  by (auto simp: isUserObjectBanned_def date_after_now_def split: option.splits)

lemma isUserBanned_truthy:
  "truthy (isUserBanned parse now usr) \<longleftrightarrow>
     (\<exists>s t. p_banned_until usr = Some s \<and> s \<noteq> [] \<and> parse s = Some t \<and> now < t)"
  by (auto simp: isUserBanned_def date_after_now_def split: option.splits)

text \<open>
  C2. With a parser for which the empty string is an invalid date, as it is for
  \<^verbatim>\<open>Date.parse\<close>: \<^verbatim>\<open>isBanned()\<close> is true iff an identity is held, its
  \<^verbatim>\<open>banned_until\<close> is not null and parses to an instant strictly after the clock's
  reading at the call. The answer is computed from the held identity and the clock alone,
  not from the stored flag \<^verbatim>\<open>showBanPopup\<close>, so on one and the same state it is true
  before the instant and false from it on; \<^verbatim>\<open>banned_until = "2020-01-01T00:00:00Z"\<close>
  read at any time from 2025-01-01T00:00:00Z on gives false. The dashboard's
  \<^verbatim>\<open>isUserBanned\<close> is truthy under the same condition on its record.
\<close>

theorem isBanned_iff:
  assumes "parse [] = None"
  shows "(isBanned parse now st \<longleftrightarrow>
            (\<exists>u s t. user st = Some u \<and> u_banned_until u = Some s \<and> parse s = Some t \<and> now < t)) \<and>
         isBanned parse now (st\<lparr>showBanPopup := b\<rparr>) = isBanned parse now st \<and>
         (\<forall>u s t. user st = Some u \<and> u_banned_until u = Some s \<and> parse s = Some t \<longrightarrow>
            (isBanned parse now st \<longleftrightarrow> now < t)) \<and>
         (\<forall>u. user st = Some u \<and> u_banned_until u = Some ''2020-01-01T00:00:00Z'' \<and>
              parse ''2020-01-01T00:00:00Z'' = Some 1577836800000 \<and> 1735689600000 \<le> now \<longrightarrow>
              \<not> isBanned parse now st) \<and>
         (truthy (isUserBanned parse now usr) \<longleftrightarrow>
            (\<exists>s t. p_banned_until usr = Some s \<and> parse s = Some t \<and> now < t))"
proof -
  have main: "isBanned parse now st \<longleftrightarrow>
      (\<exists>u s t. user st = Some u \<and> u_banned_until u = Some s \<and> parse s = Some t \<and> now < t)"
  proof (cases "user st")
    case None
    then show ?thesis by (simp add: isBanned_def isUserObjectBanned_def)
  next
    case (Some u)
    have "(\<exists>s t. u_banned_until u = Some s \<and> s \<noteq> [] \<and> parse s = Some t \<and> now < t) \<longleftrightarrow>
          (\<exists>s t. u_banned_until u = Some s \<and> parse s = Some t \<and> now < t)"
      using assms by auto
    with Some show ?thesis by (simp add: isBanned_def isUserObjectBanned_Some)
  qed
  have frame: "isBanned parse now (st\<lparr>showBanPopup := b\<rparr>) = isBanned parse now st"
    by (simp add: isBanned_def)
  have clock: "\<forall>u s t. user st = Some u \<and> u_banned_until u = Some s \<and> parse s = Some t \<longrightarrow>
            (isBanned parse now st \<longleftrightarrow> now < t)"
    using main by auto
  have ex: "\<forall>u. user st = Some u \<and> u_banned_until u = Some ''2020-01-01T00:00:00Z'' \<and>
              parse ''2020-01-01T00:00:00Z'' = Some 1577836800000 \<and> 1735689600000 \<le> now \<longrightarrow>
              \<not> isBanned parse now st"
    using main by auto
  have dash: "truthy (isUserBanned parse now usr) \<longleftrightarrow>
            (\<exists>s t. p_banned_until usr = Some s \<and> parse s = Some t \<and> now < t)"
    unfolding isUserBanned_truthy using assms by auto
  from main frame clock ex dash show ?thesis by blast
qed

theorem isBanned_iff_witness:
  "sample_parse [] = None \<and>
   \<not> isBanned sample_parse 1735689600000
       (sample_auth (Some (sample_user ''Basic Plan'' (Some ''2020-01-01T00:00:00Z'')))) \<and>
   isBanned sample_parse 1735689600000
       (sample_auth (Some (sample_user ''Basic Plan'' (Some ''2030-01-01T00:00:00Z'')))) \<and>
   \<not> isBanned sample_parse 1893456000000
       (sample_auth (Some (sample_user ''Basic Plan'' (Some ''2030-01-01T00:00:00Z''))))"
proof -
  have h: "sample_parse [] = None" by (simp add: sample_parse_def)
  have p: "sample_parse ''2020-01-01T00:00:00Z'' = Some 1577836800000"
          "sample_parse ''2030-01-01T00:00:00Z'' = Some 1893456000000"
    by (simp_all add: sample_parse_def)
  have u: "user (sample_auth (Some v)) = Some v"
          "u_banned_until (sample_user g x) = x" for v g x
    by (simp_all add: sample_auth_def sample_user_def)
  note w1 = isBanned_iff [where parse = sample_parse and now = 1735689600000 and
        st = "sample_auth (Some (sample_user ''Basic Plan'' (Some ''2020-01-01T00:00:00Z'')))", OF h]
  note w2 = isBanned_iff [where parse = sample_parse and now = 1735689600000 and
        st = "sample_auth (Some (sample_user ''Basic Plan'' (Some ''2030-01-01T00:00:00Z'')))", OF h]
  note w3 = isBanned_iff [where parse = sample_parse and now = 1893456000000 and
        st = "sample_auth (Some (sample_user ''Basic Plan'' (Some ''2030-01-01T00:00:00Z'')))", OF h]
  from w1 w2 w3 h p u
  show ?thesis by simp
qed

section \<open>Properties of login\<close>

text \<open>A rejected request leaves the state as it was, with \<^verbatim>\<open>isLoading\<close> false.\<close>

lemma login_Rejected:
  "login parse now (Rejected e) st = (Inl (RequestRejected e), st\<lparr>isLoading := False\<rparr>)"
  by (simp add: login_def)

text \<open>A resolved request without a user fails after the token and the identity are written.\<close>

lemma login_Resolved_no_user:
  "user_data d = None \<Longrightarrow>
     login parse now (Resolved d) st =
       (Inl TypeError, st\<lparr>isLoading := False, auth_token := Some (access_token d), user := None\<rparr>)"
  by (simp add: login_def)

lemma login_fails_iff:
  "isl (fst (login parse now resp st)) \<longleftrightarrow>
     (\<exists>e. resp = Rejected e) \<or> (\<exists>d. resp = Resolved d \<and> user_data d = None)"
  by (cases resp) (auto simp: login_def Let_def split: option.splits)

text \<open>
  C8. The claim is that a failed \<^verbatim>\<open>login\<close> leaves the held identity and the stored
  token untouched. The code breaks it when the request resolves with a body whose
  \<^verbatim>\<open>user\<close> is \<^verbatim>\<open>null\<close>: \<^verbatim>\<open>localStorage.setItem\<close> and \<^verbatim>\<open>setUser\<close> have run when
  \<^verbatim>\<open>userData.email_verified_at\<close> throws, so \<^verbatim>\<open>login\<close> fails with the token replaced
  and the identity gone.
\<close>

theorem login_failure_partial_state:
  "user (sample_auth (Some (sample_user ''Admin'' None))) = Some (sample_user ''Admin'' None) \<and>
   auth_token (sample_auth (Some (sample_user ''Admin'' None))) = Some ''tok-1'' \<and>
   fst (login sample_parse 0 (Resolved \<lparr>access_token = ''tok-2'', user_data = None\<rparr>)
          (sample_auth (Some (sample_user ''Admin'' None)))) = Inl TypeError \<and>
   user (snd (login sample_parse 0 (Resolved \<lparr>access_token = ''tok-2'', user_data = None\<rparr>)
          (sample_auth (Some (sample_user ''Admin'' None))))) = None \<and>
   auth_token (snd (login sample_parse 0 (Resolved \<lparr>access_token = ''tok-2'', user_data = None\<rparr>)
          (sample_auth (Some (sample_user ''Admin'' None))))) = Some ''tok-2''"
  by (simp add: login_def sample_auth_def)

section \<open>Properties of the dashboard\<close>

lemma requests_fetchUsers:
  "requests (fetchUsers page search resp st) = requests st @ [GET_users page search]"
  by (cases resp) (simp_all add: fetchUsers_def)

text \<open>
  C5. A page change to a page below 1 or above \<^verbatim>\<open>last_page\<close>, and so to page 0 and to
  page \<^verbatim>\<open>last_page + 1\<close>, returns the state as it was: no request is issued, and the
  user list and the pagination are unchanged. A page inside the interval issues exactly
  one request, the fetch of that page with the current search text.
\<close>

theorem handlePageChange_bounds:
  "(page < 1 \<or> last_page (pagination st) < page \<longrightarrow> handlePageChange page resp st = st) \<and>
   (1 \<le> page \<and> page \<le> last_page (pagination st) \<longrightarrow>
      requests (handlePageChange page resp st) = requests st @ [GET_users page (searchQuery st)]) \<and>
   handlePageChange 0 resp st = st \<and>
   handlePageChange (last_page (pagination st) + 1) resp st = st"
  by (simp add: handlePageChange_def requests_fetchUsers)

theorem handlePageChange_bounds_witness:
  "handlePageChange 4 (Resolved \<lparr>data = [sample_profile 7], meta = pagination (sample_dashboard None [] [])\<rparr>)
      (sample_dashboard None [] []) = sample_dashboard None [] [] \<and>
   handlePageChange 0 (Resolved \<lparr>data = [sample_profile 7], meta = pagination (sample_dashboard None [] [])\<rparr>)
      (sample_dashboard None [] []) = sample_dashboard None [] [] \<and>
   requests (handlePageChange 3 (Resolved \<lparr>data = [sample_profile 7], meta = pagination (sample_dashboard None [] [])\<rparr>)
      (sample_dashboard None [] [])) = [GET_users 3 ''gr'']"
proof -
  have l: "last_page (pagination (sample_dashboard None [] [])) = 3"
          "searchQuery (sample_dashboard None [] []) = ''gr''"
          "requests (sample_dashboard None [] []) = []"
    by (simp_all add: sample_dashboard_def)
  from handlePageChange_bounds [of 4 "sample_dashboard None [] []"]
       handlePageChange_bounds [of 0 "sample_dashboard None [] []"]
       handlePageChange_bounds [of 3 "sample_dashboard None [] []"] l
  show ?thesis by simp
qed

text \<open>
  The state after a ban request that was sent and accepted: the selected user has a
  non-zero id and the form passed the validation.
\<close>

lemma handleBanUser_Resolved:
  assumes "selectedUser st = Some u" and "p_id u \<noteq> 0" and "banReason st \<noteq> []"
    and "permanent \<or> bannedUntil st \<noteq> []"
  shows "handleBanUser permanent (Resolved x) st =
         st\<lparr>adminActionLoading := False,
            adminActionMessage := Some \<lparr>msg_type = success,
               msg_text = ''User '' @ p_username u @ '' banned successfully!''\<rparr>,
            requests := requests st @
               [POST_ban (p_id u) \<lparr>ban_reason = banReason st,
                  banned_until = (if permanent then None else Some (bannedUntil st))\<rparr>],
            selectedUser := Some (u\<lparr>p_banned_until := (if permanent then None else Some (bannedUntil st)),
                                   p_ban_reason := Some (banReason st)\<rparr>)\<rparr>"
proof (cases permanent)
  case True
  with assms show ?thesis
    by (simp add: handleBanUser_def Let_def or_null_def)
next
  case False
  with assms show ?thesis
    by (simp add: handleBanUser_def Let_def or_null_def)
qed



text \<open>A ban request is sent exactly when the guard and the validation are passed.\<close>

lemma ban_request_sent_iff:
  "requests (handleBanUser permanent resp st) \<noteq> requests st \<longleftrightarrow>
     (\<exists>u. selectedUser st = Some u \<and> p_id u \<noteq> 0 \<and> banReason st \<noteq> [] \<and>
          (permanent \<or> bannedUntil st \<noteq> []))"
proof (cases "selectedUser st")
  case None
  then show ?thesis by (simp add: handleBanUser_def)
next
  case (Some u)
  show ?thesis
  proof (cases "p_id u = 0 \<or> banReason st = [] \<or> (\<not> permanent \<and> bannedUntil st = [])")
    case True
    with Some show ?thesis by (auto simp: handleBanUser_def)
  next
    case False
    with Some show ?thesis
      by (cases resp) (simp_all add: handleBanUser_def Let_def)
  qed
qed

text \<open>
  C6. When a ban action succeeds, the request carried the reason of the form and, when
  the ban is not permanent, the date of the form; the selected record is the one selected
  before with \<^verbatim>\<open>banned_until\<close> set to the date submitted (null when none was submitted)
  and \<^verbatim>\<open>ban_reason\<close> set to the reason submitted, and each of its other fields is
  unchanged.
\<close>

theorem ban_success_patches_selected:
  assumes "selectedUser st = Some u" and "p_id u \<noteq> 0" and "banReason st \<noteq> []"
    and "permanent \<or> bannedUntil st \<noteq> []"
  shows "requests (handleBanUser permanent (Resolved ()) st) =
           requests st @ [POST_ban (p_id u) \<lparr>ban_reason = banReason st,
              banned_until = (if permanent then None else Some (bannedUntil st))\<rparr>] \<and>
         selectedUser (handleBanUser permanent (Resolved ()) st) =
           Some (u\<lparr>p_banned_until := (if permanent then None else Some (bannedUntil st)),
                   p_ban_reason := Some (banReason st)\<rparr>) \<and>
         (\<forall>u'. selectedUser (handleBanUser permanent (Resolved ()) st) = Some u' \<longrightarrow>
           p_banned_until u' = (if permanent then None else Some (bannedUntil st)) \<and>
           p_ban_reason u' = Some (banReason st) \<and>
           p_id u' = p_id u \<and> p_username u' = p_username u \<and> p_name u' = p_name u \<and>
           p_email u' = p_email u \<and> p_bio u' = p_bio u \<and> p_nationality u' = p_nationality u \<and>
           p_profile_picture_url u' = p_profile_picture_url u \<and>
           p_is_profile_public u' = p_is_profile_public u \<and> p_group u' = p_group u \<and>
           p_is_private u' = p_is_private u \<and> p_message u' = p_message u \<and>
           p_created_at u' = p_created_at u)"
proof -
  note eq = handleBanUser_Resolved [OF assms, of "()"]
  have req: "requests (handleBanUser permanent (Resolved ()) st) =
           requests st @ [POST_ban (p_id u) \<lparr>ban_reason = banReason st,
              banned_until = (if permanent then None else Some (bannedUntil st))\<rparr>]"
    by (simp add: eq)
  have sel: "selectedUser (handleBanUser permanent (Resolved ()) st) =
           Some (u\<lparr>p_banned_until := (if permanent then None else Some (bannedUntil st)),
                   p_ban_reason := Some (banReason st)\<rparr>)"
    by (simp add: eq)
  show ?thesis
    unfolding sel using req by (simp add: sel)
qed

theorem ban_success_patches_selected_witness:
  "selectedUser (handleBanUser False (Resolved ())
      (sample_dashboard (Some (sample_profile 7)) ''spam'' ''2030-01-01T00:00'')) =
   Some ((sample_profile 7)\<lparr>p_banned_until := Some ''2030-01-01T00:00'', p_ban_reason := Some ''spam''\<rparr>)"
proof -
  have h: "selectedUser (sample_dashboard (Some (sample_profile 7)) ''spam'' ''2030-01-01T00:00'') = Some (sample_profile 7)"
          "p_id (sample_profile 7) \<noteq> 0"
          "banReason (sample_dashboard (Some (sample_profile 7)) ''spam'' ''2030-01-01T00:00'') \<noteq> []"
          "False \<or> bannedUntil (sample_dashboard (Some (sample_profile 7)) ''spam'' ''2030-01-01T00:00'') \<noteq> []"
    by (simp_all add: sample_dashboard_def sample_profile_def)
  have f: "bannedUntil (sample_dashboard (Some (sample_profile 7)) ''spam'' ''2030-01-01T00:00'') = ''2030-01-01T00:00''"
          "banReason (sample_dashboard (Some (sample_profile 7)) ''spam'' ''2030-01-01T00:00'') = ''spam''"
    by (simp_all add: sample_dashboard_def)
  from ban_success_patches_selected [OF h] have
    "selectedUser (handleBanUser False (Resolved ())
       (sample_dashboard (Some (sample_profile 7)) ''spam'' ''2030-01-01T00:00'')) =
     Some ((sample_profile 7)\<lparr>p_banned_until :=
        (if False then None else Some (bannedUntil (sample_dashboard (Some (sample_profile 7)) ''spam'' ''2030-01-01T00:00''))),
        p_ban_reason := Some (banReason (sample_dashboard (Some (sample_profile 7)) ''spam'' ''2030-01-01T00:00''))\<rparr>)"
    by blast
  then show ?thesis by (simp only: f if_False)
qed


text \<open>
  C7, as the code has it. When the selected user has a non-zero id and the ban reason is
  empty, or the ban is not permanent and the date is empty, the handler only sets the
  error message \<^verbatim>\<open>Please fill all ban fields.\<close>: the rest of the state, with the
  selected record and the log of requests, is unchanged.
\<close>

theorem ban_validation_rejects:
  assumes "selectedUser st = Some u" and "p_id u \<noteq> 0"
    and "banReason st = [] \<or> (\<not> permanent \<and> bannedUntil st = [])"
  shows "handleBanUser permanent resp st =
           st\<lparr>adminActionMessage :=
                Some \<lparr>msg_type = error, msg_text = ''Please fill all ban fields.''\<rparr>\<rparr> \<and>
         requests (handleBanUser permanent resp st) = requests st \<and>
         adminActionMessage (handleBanUser permanent resp st) =
           Some \<lparr>msg_type = error, msg_text = ''Please fill all ban fields.''\<rparr> \<and>
         selectedUser (handleBanUser permanent resp st) = Some u"
  using assms by (auto simp: handleBanUser_def)

theorem ban_validation_rejects_witness:
  "handleBanUser False (Resolved ()) (sample_dashboard (Some (sample_profile 7)) [] ''2030-01-01T00:00'') =
     (sample_dashboard (Some (sample_profile 7)) [] ''2030-01-01T00:00'')
       \<lparr>adminActionMessage := Some \<lparr>msg_type = error, msg_text = ''Please fill all ban fields.''\<rparr>\<rparr> \<and>
   requests (handleBanUser True (Resolved ()) (sample_dashboard (Some (sample_profile 7)) [] [])) = [] \<and>
   selectedUser (handleBanUser False (Resolved ()) (sample_dashboard (Some (sample_profile 7)) ''spam'' [])) =
     Some (sample_profile 7)"
proof -
  have sel: "selectedUser (sample_dashboard (Some (sample_profile 7)) r b) = Some (sample_profile 7)"
    for r b by (simp add: sample_dashboard_def)
  have id: "p_id (sample_profile 7) \<noteq> 0" by (simp add: sample_profile_def)
  have v1: "banReason (sample_dashboard (Some (sample_profile 7)) [] ''2030-01-01T00:00'') = [] \<or>
            (\<not> False \<and> bannedUntil (sample_dashboard (Some (sample_profile 7)) [] ''2030-01-01T00:00'') = [])"
    by (simp add: sample_dashboard_def)
  have v2: "banReason (sample_dashboard (Some (sample_profile 7)) [] []) = [] \<or>
            (\<not> True \<and> bannedUntil (sample_dashboard (Some (sample_profile 7)) [] []) = [])"
    by (simp add: sample_dashboard_def)
  have v3: "banReason (sample_dashboard (Some (sample_profile 7)) ''spam'' []) = [] \<or>
            (\<not> False \<and> bannedUntil (sample_dashboard (Some (sample_profile 7)) ''spam'' []) = [])"
    by (simp add: sample_dashboard_def)
  have r: "requests (sample_dashboard (Some (sample_profile 7)) [] []) = []"
    by (simp add: sample_dashboard_def)
  have a: "handleBanUser False (Resolved ()) (sample_dashboard (Some (sample_profile 7)) [] ''2030-01-01T00:00'') =
     (sample_dashboard (Some (sample_profile 7)) [] ''2030-01-01T00:00'')
       \<lparr>adminActionMessage := Some \<lparr>msg_type = error, msg_text = ''Please fill all ban fields.''\<rparr>\<rparr>"
    using ban_validation_rejects [OF sel id v1, of "Resolved ()"] by (rule conjunct1)
  have b: "requests (handleBanUser True (Resolved ()) (sample_dashboard (Some (sample_profile 7)) [] [])) = []"
    using ban_validation_rejects [OF sel id v2, of "Resolved ()"] r by metis
  have c: "selectedUser (handleBanUser False (Resolved ()) (sample_dashboard (Some (sample_profile 7)) ''spam'' [])) =
     Some (sample_profile 7)"
    using ban_validation_rejects [OF sel id v3, of "Resolved ()"] by blast
  from a b c show ?thesis by (intro conjI)
qed



text \<open>
  C7, as it is stated, fails for a selected user whose id is \<^verbatim>\<open>0\<close>: the guard
  \<^verbatim>\<open>!selectedUser?.id\<close> returns before the validation, and with an empty ban reason
  and an empty date no message is set.
\<close>

theorem ban_validation_silent_for_id_zero:
  "selectedUser (sample_dashboard (Some (sample_profile 0)) [] []) = Some (sample_profile 0) \<and>
   banReason (sample_dashboard (Some (sample_profile 0)) [] []) = [] \<and>
   adminActionMessage (handleBanUser False (Resolved ())
      (sample_dashboard (Some (sample_profile 0)) [] [])) = None"
  by (simp add: handleBanUser_def sample_dashboard_def sample_profile_def)

text \<open>
  C10. After a permanent ban that succeeded, the selected record has
  \<^verbatim>\<open>banned_until\<close> null and the reason of the form, and \<^verbatim>\<open>isUserBanned\<close> on it
  gives \<^verbatim>\<open>null\<close>, which is falsy, whatever the clock and the date parser are.
\<close>

theorem permanent_ban_not_reported:
  assumes "selectedUser st = Some u" and "p_id u \<noteq> 0" and "banReason st \<noteq> []"
  shows "\<exists>u'. selectedUser (handleBanUser True (Resolved ()) st) = Some u' \<and>
              p_banned_until u' = None \<and> p_ban_reason u' = Some (banReason st) \<and>
              isUserBanned parse now u' = JNull \<and>
              \<not> truthy (isUserBanned parse now u')"
proof -
  have "selectedUser (handleBanUser True (Resolved ()) st) =
          Some (u\<lparr>p_banned_until := None, p_ban_reason := Some (banReason st)\<rparr>)"
    using handleBanUser_Resolved [OF assms, of True "()"] by simp
  then show ?thesis by (simp add: isUserBanned_def)
qed

theorem permanent_ban_not_reported_witness:
  "\<exists>u'. selectedUser (handleBanUser True (Resolved ())
            (sample_dashboard (Some (sample_profile 7)) ''spam'' [])) = Some u' \<and>
        p_banned_until u' = None \<and>
        \<not> truthy (isUserBanned sample_parse 1735689600000 u')"
proof -
  have h: "selectedUser (sample_dashboard (Some (sample_profile 7)) ''spam'' []) = Some (sample_profile 7)"
          "p_id (sample_profile 7) \<noteq> 0"
          "banReason (sample_dashboard (Some (sample_profile 7)) ''spam'' []) \<noteq> []"
    by (simp_all add: sample_dashboard_def sample_profile_def)
  from permanent_ban_not_reported [OF h, of sample_parse 1735689600000]
  show ?thesis by blast
qed


end
